theory Spec2Isabelle
  imports Main "HOL-Library.Sublist"
begin

section \<open>The StripeEventsToSns construct\<close>

text \<open>
  The repository is one class, \<open>StripeEventsToSns\<close> (src/index.ts), whose constructor
  validates four properties and then declares an EventBridge rule, a statement on the
  topic's resource policy and an SNS target of the rule. The constructor is embedded as
  a function on an explicit store: the objects of the construct library that it creates
  or mutates (the construct tree, the rules, the resource policy of each topic) are
  fields of the store, and a call into the library does to the store what the library
  does to those objects. A JavaScript exception is a value \<open>Inl\<close> of the result, returned together with
  the store as it is at the moment of the throw.
\<close>

subsection \<open>Data of the construct library, as far as the constructor uses it\<close>

text \<open>A construct is known by its path in the construct tree: the ids from the root.\<close>

type_synonym path = "string list"

text \<open>References to the caller's event bus and topic objects.\<close>

type_synonym event_bus = string
type_synonym topic = string

text \<open>
  \<open>rule.ruleArn\<close> and \<open>topic.topicArn\<close> are tokens that stand for the ARN of the rule
  at a path, and of a topic.
\<close>

datatype arn = RuleArn path | TopicArn topic

text \<open>
  An element of \<open>eventPattern.source\<close>: a plain string matches exactly, an object
  \<open>{ prefix: s }\<close> matches by prefix.
\<close>

datatype source_matcher = Exact string | Prefix string

record event_pattern =
  source :: "source_matcher list"
  detailType :: "string list"

text \<open>
  The value a message template returns (\<open>any\<close> in the source): JSON-like data whose
  leaves may be the tokens of \<open>EventField.fromPath\<close>.
\<close>

datatype template_value =
    VNull
  | VBool bool
  | VNumber int
  | VString string
  | VField string
  | VArray "template_value list"
  | VObject "(string \<times> template_value) list"

text \<open>The helper passed to the template: \<open>events.EventField\<close>, with its \<open>fromPath\<close>.\<close>

record event_field =
  fromPath :: "string \<Rightarrow> template_value"

definition EventField :: event_field where
  "EventField = \<lparr>fromPath = VField\<rparr>"

datatype rule_target_input = FromObject template_value

datatype rule_target = SnsTopic topic rule_target_input

record rule =
  rulePath :: path
  ruleEventBus :: event_bus
  eventPattern :: event_pattern
  description :: string
  targets :: "rule_target list"

datatype effect = ALLOW | DENY

datatype principal = ServicePrincipal string | ArnPrincipal arn

record policy_statement =
  effect :: effect
  principals :: "principal list"
  actions :: "string list"
  resources :: "arn list"
  conditions :: "(string \<times> (string \<times> arn) list) list"

text \<open>
  The store. \<open>nodes\<close> are the constructs registered in the tree, \<open>rules\<close> the rule
  objects in allocation order (a reference to a rule is its index), \<open>topicPolicy\<close> the
  statements of each topic's resource policy, and \<open>templateCalls\<close> counts the calls of
  a message template: a template is called through \<open>call_template\<close> only, which
  applies it and counts the call in one step.
\<close>

record stack =
  nodes :: "path list"
  rules :: "rule list"
  topicPolicy :: "topic \<Rightarrow> policy_statement list"
  templateCalls :: nat

definition empty_stack :: stack where
  "empty_stack = \<lparr>nodes = [], rules = [], topicPolicy = (\<lambda>t. []), templateCalls = 0\<rparr>"

subsection \<open>Properties and errors\<close>

text \<open>
  \<open>StripeEventsToSnsProps\<close>. A field is \<open>None\<close> when the caller left it \<open>undefined\<close>
  (the tests do so through \<open>as any\<close>). The template either returns a value or throws a
  value of the caller's (\<open>Inl\<close>).
\<close>

record 'e props =
  eventBus :: "event_bus option"
  topic :: "topic option"
  eventTypes :: "string list option"
  messageTemplate :: "(event_field \<Rightarrow> 'e + template_value) option"

text \<open>
  What the constructor can throw: its own \<open>Error\<close> with a message, or whatever the
  template threw.
\<close>

datatype 'e thrown = Error string | Thrown 'e

subsection \<open>Calls into the construct library\<close>

text \<open>
  \<open>super(scope, id)\<close>: the new construct becomes a node of the tree. The library
  refuses an empty id and an id already used in the scope; the model is of the ids it
  accepts, and the property that depends on this says so in its hypotheses.
\<close>

definition register_node :: "path \<Rightarrow> stack \<Rightarrow> stack" where
  "register_node p s = s\<lparr>nodes := nodes s @ [p]\<rparr>"

text \<open>\<open>new events.Rule(scope, id, props)\<close>: allocates the rule, which has no target yet.\<close>

definition new_Rule ::
  "path \<Rightarrow> string \<Rightarrow> event_bus \<Rightarrow> event_pattern \<Rightarrow> string \<Rightarrow> stack \<Rightarrow> nat \<times> stack" where
  "new_Rule scope ident bus pat descr s =
     (length (rules s),
      s\<lparr>nodes := nodes s @ [scope @ [ident]],
        rules := rules s @
          [\<lparr>rulePath = scope @ [ident], ruleEventBus = bus, eventPattern = pat,
            description = descr, targets = []\<rparr>]\<rparr>)"

definition ruleArn :: "rule \<Rightarrow> arn" where
  "ruleArn r = RuleArn (rulePath r)"

definition topicArn :: "topic \<Rightarrow> arn" where
  "topicArn t = TopicArn t"

definition addToResourcePolicy :: "topic \<Rightarrow> policy_statement \<Rightarrow> stack \<Rightarrow> stack" where
  "addToResourcePolicy t st s = s\<lparr>topicPolicy := (topicPolicy s)(t := topicPolicy s t @ [st])\<rparr>"

text \<open>
  \<open>topic.grantPublish(principal)\<close>, for a principal that has no policy of its own: a
  statement on the topic's resource policy that allows \<open>sns:Publish\<close> on the topic,
  with no condition.
\<close>

definition grantPublish :: "topic \<Rightarrow> principal \<Rightarrow> stack \<Rightarrow> stack" where
  "grantPublish t pr s =
     addToResourcePolicy t
       \<lparr>effect = ALLOW, principals = [pr], actions = [''sns:Publish''],
        resources = [topicArn t], conditions = []\<rparr> s"

text \<open>
  What a target does when a rule binds it: \<open>targets.SnsTopic\<close> grants the EventBridge
  service principal the right to publish to its topic.
\<close>

fun bind_target :: "rule_target \<Rightarrow> stack \<Rightarrow> stack" where
  "bind_target (SnsTopic t inp) s = grantPublish t (ServicePrincipal ''events.amazonaws.com'') s"

text \<open>\<open>rule.addTarget(target)\<close>: binds the target, then attaches it to the rule.\<close>

definition addTarget :: "nat \<Rightarrow> rule_target \<Rightarrow> stack \<Rightarrow> stack" where
  "addTarget r tg s =
     (let s1 = bind_target tg s
      in s1\<lparr>rules := (rules s1)[r := (rules s1 ! r)\<lparr>targets := targets (rules s1 ! r) @ [tg]\<rparr>]\<rparr>)"

text \<open>
  A call of a caller-supplied template: the application and the count of the call are one
  step, so calling twice counts twice.
\<close>

definition call_template ::
  "(event_field \<Rightarrow> 'e + template_value) \<Rightarrow> event_field \<Rightarrow> stack
     \<Rightarrow> ('e + template_value) \<times> stack" where
  "call_template f h s = (f h, s\<lparr>templateCalls := Suc (templateCalls s)\<rparr>)"

subsection \<open>The constructor\<close>

text \<open>\<open>Array.prototype.join\<close> on strings.\<close>

fun join :: "string \<Rightarrow> string list \<Rightarrow> string" where
  "join sep [] = []"
| "join sep [x] = x"
| "join sep (x # y # ys) = x @ sep @ join sep (y # ys)"

text \<open>Lines 73 to 86: the array \<open>errors\<close> after the four checks.\<close>

definition validation_errors :: "'e props \<Rightarrow> string list" where
  "validation_errors p =
     (let errors = [];
          errors = (if eventBus p = None then errors @ [''eventBus is required''] else errors);
          errors = (if topic p = None then errors @ [''topic is required''] else errors);
          errors = (if (case eventTypes p of None \<Rightarrow> True | Some ets \<Rightarrow> length ets = 0)
                    then errors @ [''eventTypes must be a non-empty array''] else errors);
          errors = (if messageTemplate p = None
                    then errors @ [''messageTemplate is required''] else errors)
      in errors)"

text \<open>Lines 89 to 91: the message of the error thrown when \<open>errors\<close> is not empty.\<close>

definition validation_message :: "string list \<Rightarrow> string" where
  "validation_message errors =
     ''StripeEventsToSns validation failed:'' @ [CHR 0x0A] @ ''  - ''
       @ join ([CHR 0x0A] @ ''  - '') errors"

text \<open>Lines 131 to 147: the statement added to the topic's resource policy.\<close>

definition publish_statement :: "topic \<Rightarrow> rule \<Rightarrow> policy_statement" where
  "publish_statement t r =
     \<lparr>effect = ALLOW,
      principals = [ServicePrincipal ''events.amazonaws.com''],
      actions = [''sns:Publish''],
      resources = [topicArn t],
      conditions = [(''StringEquals'', [(''aws:SourceArn'', ruleArn r)])]\<rparr>"

text \<open>
  The constructor, in the order of the source: \<open>super(scope, id)\<close>, the validation, the
  rule, the policy statement, the call of the template (an argument of the target, so
  evaluated before \<open>addTarget\<close> runs), the target. \<open>FromObject\<close> stands for the input
  object that \<open>RuleTargetInput.fromObject\<close> makes of the template's value; how the
  library serializes it is not part of the model. The result is the path of the new
  construct, or what was thrown.
\<close>

definition StripeEventsToSns ::
  "path \<Rightarrow> string \<Rightarrow> 'e props \<Rightarrow> stack \<Rightarrow> ('e thrown + path) \<times> stack" where
  "StripeEventsToSns scope ident p s0 =
     (let this = scope @ [ident];
          s1 = register_node this s0;
          errors = validation_errors p
      in if length errors > 0 then (Inl (Error (validation_message errors)), s1)
         else
           let (r, s2) = new_Rule this ''StripeEventRule'' (the (eventBus p))
                           \<lparr>source = [Prefix ''aws.partner/stripe.com''],
                            detailType = the (eventTypes p)\<rparr>
                           ''Generic rule to relay Stripe events to SNS'' s1;
               s3 = addToResourcePolicy (the (topic p))
                      (publish_statement (the (topic p)) (rules s2 ! r)) s2;
               (res, s4) = call_template (the (messageTemplate p)) EventField s3
           in case res of
                Inl e \<Rightarrow> (Inl (Thrown e), s4)
              | Inr v \<Rightarrow> (Inr this, addTarget r (SnsTopic (the (topic p)) (FromObject v)) s4))"

subsection \<open>Notions used to state the properties\<close>

text \<open>The lines of a message: the pieces between its newline characters.\<close>

fun split_lines :: "string \<Rightarrow> string list" where
  "split_lines [] = [[]]"
| "split_lines (c # cs) =
     (if c = CHR 0x0A then [] # split_lines cs
      else (case split_lines cs of [] \<Rightarrow> [[c]] | l # ls \<Rightarrow> (c # l) # ls))"

text \<open>
  The specification's notion of a missing required field, written from its words (a bus,
  a topic, a non-empty list of event types, a template function), to be compared with
  the checks of the constructor.
\<close>

datatype field = EventBusField | TopicField | EventTypesField | MessageTemplateField

fun spec_missing :: "'e props \<Rightarrow> field \<Rightarrow> bool" where
  "spec_missing p EventBusField = (eventBus p = None)"
| "spec_missing p TopicField = (topic p = None)"
| "spec_missing p EventTypesField = (eventTypes p = None \<or> eventTypes p = Some [])"
| "spec_missing p MessageTemplateField = (messageTemplate p = None)"

definition spec_missing_fields :: "'e props \<Rightarrow> field list" where
  "spec_missing_fields p =
     filter (spec_missing p) [EventBusField, TopicField, EventTypesField, MessageTemplateField]"

text \<open>The message text of each field's violation.\<close>

fun violation :: "field \<Rightarrow> string" where
  "violation EventBusField = ''eventBus is required''"
| "violation TopicField = ''topic is required''"
| "violation EventTypesField = ''eventTypes must be a non-empty array''"
| "violation MessageTemplateField = ''messageTemplate is required''"


text \<open>
  Descriptions up to the identifiers of an instance: the path of a rule, and the paths in
  the rule ARNs that a statement mentions.
\<close>

fun erase_arn :: "arn \<Rightarrow> arn" where
  "erase_arn (RuleArn pth) = RuleArn []"
| "erase_arn (TopicArn t) = TopicArn t"

fun erase_principal :: "principal \<Rightarrow> principal" where
  "erase_principal (ServicePrincipal n) = ServicePrincipal n"
| "erase_principal (ArnPrincipal a) = ArnPrincipal (erase_arn a)"

definition erase_rule :: "rule \<Rightarrow> rule" where
  "erase_rule r = r\<lparr>rulePath := []\<rparr>"

definition erase_statement :: "policy_statement \<Rightarrow> policy_statement" where
  "erase_statement st =
     st\<lparr>principals := map erase_principal (principals st),
        resources := map erase_arn (resources st),
        conditions := map (map_prod id (map (map_prod id erase_arn))) (conditions st)\<rparr>"

subsection \<open>Configurations of the test suite\<close>

text \<open>
  The properties of the test suite's \<open>beforeEach\<close>, with a template made of two
  extracted fields, and the same properties with a template that throws.
\<close>

definition example_template :: "event_field \<Rightarrow> string + template_value" where
  "example_template h =
     Inr (VObject [(''message'', fromPath h ''$.detail-type''), (''data'', fromPath h ''$.detail'')])"

definition throwing_template :: "event_field \<Rightarrow> string + template_value" where
  "throwing_template h = Inl ''template failed''"

definition example_props :: "string props" where
  "example_props =
     \<lparr>eventBus = Some ''TestEventBus'', topic = Some ''TestTopic'',
      eventTypes = Some [''payment_intent.succeeded'', ''customer.created''],
      messageTemplate = Some example_template\<rparr>"

definition throwing_props :: "string props" where
  "throwing_props = example_props\<lparr>messageTemplate := Some throwing_template\<rparr>"


definition nothing_props :: "string props" where
  "nothing_props = \<lparr>eventBus = None, topic = None, eventTypes = None, messageTemplate = None\<rparr>"

section \<open>Properties\<close>

subsection \<open>What the constructor computes\<close>

lemma validation_errors_Nil_iff:
  "validation_errors p = [] \<longleftrightarrow>
     eventBus p \<noteq> None \<and> topic p \<noteq> None \<and> (\<exists>ets. eventTypes p = Some ets \<and> ets \<noteq> [])
     \<and> messageTemplate p \<noteq> None"
  by (auto simp: validation_errors_def Let_def split: option.splits)

lemma ctor_invalid:
  "validation_errors p \<noteq> [] \<Longrightarrow>
     StripeEventsToSns scope ident p s0 =
       (Inl (Error (validation_message (validation_errors p))), register_node (scope @ [ident]) s0)"
  by (simp add: StripeEventsToSns_def Let_def)

text \<open>
  With the four properties present, the store after the constructor: both nodes, the rule
  and the statement of the constructor are there in either case; the target, and with it
  the statement that binding the target adds, only if the template returned.
\<close>

lemma ctor_valid:
  assumes "eventBus p = Some b" "topic p = Some t" "eventTypes p = Some ets" "ets \<noteq> []"
    "messageTemplate p = Some f"
  shows "StripeEventsToSns scope ident p s0 =
    (case f EventField of
       Inl e \<Rightarrow> (Inl (Thrown e),
          s0\<lparr>nodes := nodes s0 @ [scope @ [ident], scope @ [ident, ''StripeEventRule'']],
             rules := rules s0 @
               [\<lparr>rulePath = scope @ [ident, ''StripeEventRule''], ruleEventBus = b,
                 eventPattern = \<lparr>source = [Prefix ''aws.partner/stripe.com''], detailType = ets\<rparr>,
                 description = ''Generic rule to relay Stripe events to SNS'', targets = []\<rparr>],
             topicPolicy := (topicPolicy s0)(t := topicPolicy s0 t @
               [\<lparr>effect = ALLOW, principals = [ServicePrincipal ''events.amazonaws.com''],
                 actions = [''sns:Publish''], resources = [TopicArn t],
                 conditions = [(''StringEquals'',
                   [(''aws:SourceArn'', RuleArn (scope @ [ident, ''StripeEventRule'']))])]\<rparr>]),
             templateCalls := Suc (templateCalls s0)\<rparr>)
     | Inr v \<Rightarrow> (Inr (scope @ [ident]),
          s0\<lparr>nodes := nodes s0 @ [scope @ [ident], scope @ [ident, ''StripeEventRule'']],
             rules := rules s0 @
               [\<lparr>rulePath = scope @ [ident, ''StripeEventRule''], ruleEventBus = b,
                 eventPattern = \<lparr>source = [Prefix ''aws.partner/stripe.com''], detailType = ets\<rparr>,
                 description = ''Generic rule to relay Stripe events to SNS'',
                 targets = [SnsTopic t (FromObject v)]\<rparr>],
             topicPolicy := (topicPolicy s0)(t := topicPolicy s0 t @
               [\<lparr>effect = ALLOW, principals = [ServicePrincipal ''events.amazonaws.com''],
                 actions = [''sns:Publish''], resources = [TopicArn t],
                 conditions = [(''StringEquals'',
                   [(''aws:SourceArn'', RuleArn (scope @ [ident, ''StripeEventRule'']))])]\<rparr>,
                \<lparr>effect = ALLOW, principals = [ServicePrincipal ''events.amazonaws.com''],
                 actions = [''sns:Publish''], resources = [TopicArn t], conditions = []\<rparr>]),
             templateCalls := Suc (templateCalls s0)\<rparr>))"
proof -
  have ok: "validation_errors p = []"
    using assms by (simp add: validation_errors_Nil_iff)
  show ?thesis
    using assms ok
    by (simp add: StripeEventsToSns_def Let_def register_node_def new_Rule_def
        addToResourcePolicy_def addTarget_def grantPublish_def call_template_def
        publish_statement_def ruleArn_def topicArn_def split: sum.split)
qed

subsection \<open>The violations and the message\<close>

text \<open>The checks of the constructor agree with the specification's missing fields.\<close>

lemma validation_errors_eq:
  "validation_errors p = map violation (spec_missing_fields p)"
  by (auto simp: validation_errors_def spec_missing_fields_def Let_def split: option.splits)

lemma violation_no_newline: "CHR 0x0A \<notin> set (violation f)"
  by (cases f) simp_all

lemma split_lines_no_newline: "CHR 0x0A \<notin> set x \<Longrightarrow> split_lines x = [x]"
  by (induction x) auto

lemma split_lines_append:
  "CHR 0x0A \<notin> set x \<Longrightarrow> split_lines (x @ CHR 0x0A # rest) = x # split_lines rest"
  by (induction x) auto

lemma join_concat: "join sep (x # xs) = x @ concat (map (\<lambda>e. sep @ e) xs)"
  by (induction xs arbitrary: x) auto

lemma validation_message_concat:
  "errs \<noteq> [] \<Longrightarrow> validation_message errs =
     ''StripeEventsToSns validation failed:'' @ concat (map (\<lambda>e. CHR 0x0A # ''  - '' @ e) errs)"
  by (cases errs) (simp_all add: validation_message_def join_concat)

lemma split_lines_concat:
  "CHR 0x0A \<notin> set h \<Longrightarrow> \<forall>e\<in>set es. CHR 0x0A \<notin> set e \<Longrightarrow>
     split_lines (h @ concat (map (\<lambda>e. CHR 0x0A # e) es)) = h # es"
proof (induction es arbitrary: h)
  case Nil
  then show ?case by (simp add: split_lines_no_newline)
next
  case (Cons e es)
  then show ?case by (simp add: split_lines_append)
qed

lemma split_lines_validation_message:
  assumes "errs \<noteq> []" "\<forall>e\<in>set errs. CHR 0x0A \<notin> set e"
  shows "split_lines (validation_message errs) =
           ''StripeEventsToSns validation failed:'' # map (\<lambda>e. ''  - '' @ e) errs"
proof -
  let ?h = "''StripeEventsToSns validation failed:''"
  let ?es = "map (\<lambda>e. ''  - '' @ e) errs"
  have msg: "validation_message errs = ?h @ concat (map (\<lambda>e. CHR 0x0A # e) ?es)"
    by (simp add: validation_message_concat[OF assms(1)] comp_def)
  have es: "\<forall>e\<in>set ?es. CHR 0x0A \<notin> set e"
    using assms(2) by auto
  have h: "CHR 0x0A \<notin> set ?h" by simp
  show ?thesis
    unfolding msg by (rule split_lines_concat[OF h es])
qed

lemma validation_errors_no_newline: "\<forall>e\<in>set (validation_errors p). CHR 0x0A \<notin> set e"
  by (auto simp: validation_errors_eq violation_no_newline)

text \<open>A violation is reported exactly for a missing field, and it is part of the message.\<close>

lemma violation_mem_iff: "violation fd \<in> set (validation_errors p) \<longleftrightarrow> spec_missing p fd"
  by (cases fd) (auto simp: validation_errors_eq spec_missing_fields_def)







subsection \<open>The policy statements\<close>

text \<open>
  With the four properties present and a template that returns, the constructor leaves
  two new statements on the configured topic: its own, under the condition on the ARN of
  its own rule, and the one that binding the target adds, for the same principal, action
  and resource under no condition.
\<close>

lemma policy_after_returning_template:
  assumes "eventBus p = Some b" "topic p = Some t" "eventTypes p = Some ets" "ets \<noteq> []"
    "messageTemplate p = Some f" "f EventField = Inr v"
  shows "topicPolicy (snd (StripeEventsToSns scope ident p s0)) t =
           topicPolicy s0 t @
             [\<lparr>effect = ALLOW, principals = [ServicePrincipal ''events.amazonaws.com''],
               actions = [''sns:Publish''], resources = [TopicArn t],
               conditions = [(''StringEquals'',
                 [(''aws:SourceArn'', RuleArn (scope @ [ident, ''StripeEventRule'']))])]\<rparr>,
              \<lparr>effect = ALLOW, principals = [ServicePrincipal ''events.amazonaws.com''],
               actions = [''sns:Publish''], resources = [TopicArn t], conditions = []\<rparr>]"
  using ctor_valid[OF assms(1-5), of scope ident s0] assms(6)
  by simp

text \<open>
  Claim C1. The claim asks for exactly one statement on the topic, and for that statement
  to require \<open>aws:SourceArn\<close> to be the ARN of this construct's rule; the comments of
  the source say the same (lines 128 and 142: only this specific rule can publish). The
  code does not do so: from the empty store, with the properties of the test suite, the
  policy of the topic holds two statements after the constructor, and the second one
  allows \<open>sns:Publish\<close> to \<open>events.amazonaws.com\<close> under no condition.
\<close>

theorem policy_has_unconditioned_statement:
  "topicPolicy (snd (StripeEventsToSns [''TestStack''] ''TestNotifier'' example_props empty_stack))
     ''TestTopic'' =
     [\<lparr>effect = ALLOW, principals = [ServicePrincipal ''events.amazonaws.com''],
       actions = [''sns:Publish''], resources = [TopicArn ''TestTopic''],
       conditions = [(''StringEquals'', [(''aws:SourceArn'',
          RuleArn [''TestStack'', ''TestNotifier'', ''StripeEventRule''])])]\<rparr>,
      \<lparr>effect = ALLOW, principals = [ServicePrincipal ''events.amazonaws.com''],
       actions = [''sns:Publish''], resources = [TopicArn ''TestTopic''], conditions = []\<rparr>]"
  using ctor_valid[of example_props "''TestEventBus''" "''TestTopic''"
      "[''payment_intent.succeeded'', ''customer.created'']" example_template
      "[''TestStack'']" "''TestNotifier''" empty_stack]
  by (simp add: example_props_def example_template_def empty_stack_def)

subsection \<open>The detail types of the rule\<close>

text \<open>
  Claim C2. With the four properties present, the constructor allocates exactly one rule,
  and the detail-type list of its event pattern is the list \<open>eventTypes\<close> itself: same
  elements, same order, duplicates kept.
\<close>

theorem detail_type_is_event_types:
  assumes "eventBus p = Some b" "topic p = Some t" "eventTypes p = Some ets" "ets \<noteq> []"
    "messageTemplate p = Some f"
  shows "length (rules (snd (StripeEventsToSns scope ident p s0))) = Suc (length (rules s0))
         \<and> detailType (eventPattern (rules (snd (StripeEventsToSns scope ident p s0)) ! length (rules s0)))
             = ets"
  using ctor_valid[OF assms, of scope ident s0]
  by (cases "f EventField") simp_all

theorem detail_type_is_event_types_witness:
  "detailType (eventPattern (rules (snd (StripeEventsToSns [''TestStack''] ''TestNotifier''
      (example_props\<lparr>eventTypes := Some [''b'', ''a'', ''b'']\<rparr>) empty_stack)) ! 0))
     = [''b'', ''a'', ''b'']"
  using detail_type_is_event_types[of "example_props\<lparr>eventTypes := Some [''b'', ''a'', ''b'']\<rparr>"
      "''TestEventBus''" "''TestTopic''" "[''b'', ''a'', ''b'']" example_template
      "[''TestStack'']" "''TestNotifier''" empty_stack]
  by (simp add: example_props_def empty_stack_def)

subsection \<open>Every violation is reported\<close>

text \<open>
  Claim C3. When at least one required field is missing (or \<open>eventTypes\<close> is empty), the
  constructor throws one \<open>Error\<close>. After the heading line its message has one line for
  each violation, the number of violations is the number of missing fields, and the line
  of every missing field occurs exactly once.
\<close>

theorem all_violations_reported:
  assumes "spec_missing_fields p \<noteq> []"
  shows "\<exists>msg. fst (StripeEventsToSns scope ident p s0) = Inl (Error msg)
           \<and> split_lines msg = ''StripeEventsToSns validation failed:'' #
                map (\<lambda>e. ''  - '' @ e) (validation_errors p)
           \<and> length (validation_errors p) = length (spec_missing_fields p)
           \<and> length (split_lines msg) = Suc (length (spec_missing_fields p))
           \<and> (\<forall>fd. spec_missing p fd \<longrightarrow>
                 count_list (split_lines msg) (''  - '' @ violation fd) = 1)"
proof -
  let ?errs = "validation_errors p"
  let ?msg = "validation_message ?errs"
  have ne: "?errs \<noteq> []"
    using assms by (simp add: validation_errors_eq)
  have res: "fst (StripeEventsToSns scope ident p s0) = Inl (Error ?msg)"
    by (simp add: ctor_invalid[OF ne])
  have ls: "split_lines ?msg =
      ''StripeEventsToSns validation failed:'' # map (\<lambda>e. ''  - '' @ e) ?errs"
    by (rule split_lines_validation_message[OF ne validation_errors_no_newline])
  have len: "length ?errs = length (spec_missing_fields p)"
    by (simp add: validation_errors_eq)
  have ls': "split_lines ?msg = ''StripeEventsToSns validation failed:'' #
      map (\<lambda>fd. ''  - '' @ violation fd) (spec_missing_fields p)"
    by (simp only: ls) (simp add: validation_errors_eq comp_def)
  have once: "count_list (split_lines ?msg) (''  - '' @ violation fd) = 1"
    if "spec_missing p fd" for fd
    using that by (simp only: ls') (cases fd; auto simp: spec_missing_fields_def)
  show ?thesis
    using res ls len once by (intro exI[of _ ?msg]) simp
qed

theorem all_violations_reported_witness:
  "\<exists>msg. fst (StripeEventsToSns [''TestStack''] ''TestNotifier'' nothing_props empty_stack)
            = Inl (Error msg)
     \<and> split_lines msg =
         [''StripeEventsToSns validation failed:'', ''  - eventBus is required'',
          ''  - topic is required'', ''  - eventTypes must be a non-empty array'',
          ''  - messageTemplate is required'']"
  using all_violations_reported[of nothing_props "[''TestStack'']" "''TestNotifier''" empty_stack]
  by (auto simp: nothing_props_def spec_missing_fields_def validation_errors_def)

subsection \<open>A template that throws\<close>

text \<open>
  Claim C4, as the code has it. With the four properties present and a template that
  throws \<open>e\<close>, the constructor throws \<open>e\<close> itself and attaches no target. The template
  is called last, as an argument of the target: by then the rule has been allocated (it
  is in the store, without a target) and the statement has been added to the policy of
  the topic.
\<close>

theorem template_throw_propagates:
  assumes "eventBus p = Some b" "topic p = Some t" "eventTypes p = Some ets" "ets \<noteq> []"
    "messageTemplate p = Some f" "f EventField = Inl e"
  shows "fst (StripeEventsToSns scope ident p s0) = Inl (Thrown e)
         \<and> length (rules (snd (StripeEventsToSns scope ident p s0))) = Suc (length (rules s0))
         \<and> take (length (rules s0)) (rules (snd (StripeEventsToSns scope ident p s0))) = rules s0
         \<and> targets (rules (snd (StripeEventsToSns scope ident p s0)) ! length (rules s0)) = []
         \<and> length (topicPolicy (snd (StripeEventsToSns scope ident p s0)) t)
             = Suc (length (topicPolicy s0 t))"
  using ctor_valid[OF assms(1-5), of scope ident s0] assms(6)
  by simp

theorem template_throw_propagates_witness:
  "fst (StripeEventsToSns [''TestStack''] ''TestNotifier'' throwing_props empty_stack)
       = Inl (Thrown ''template failed'')
   \<and> targets (rules (snd (StripeEventsToSns [''TestStack''] ''TestNotifier'' throwing_props
         empty_stack)) ! 0) = []"
  using template_throw_propagates[of throwing_props "''TestEventBus''" "''TestTopic''"
      "[''payment_intent.succeeded'', ''customer.created'']" throwing_template
      "''template failed''" "[''TestStack'']" "''TestNotifier''" empty_stack]
  by (simp add: throwing_props_def example_props_def throwing_template_def empty_stack_def)

text \<open>
  So it does not hold that none of the three entities is built when the template throws:
  from the empty store and the test suite's properties with a throwing template, the
  store holds one rule and one statement on the topic after the throw.
\<close>

theorem template_throw_not_atomic:
  "fst (StripeEventsToSns [''TestStack''] ''TestNotifier'' throwing_props empty_stack)
       = Inl (Thrown ''template failed'')
   \<and> rules empty_stack = []
   \<and> topicPolicy empty_stack ''TestTopic'' = []
   \<and> length (rules (snd (StripeEventsToSns [''TestStack''] ''TestNotifier'' throwing_props
         empty_stack))) = 1
   \<and> length (topicPolicy (snd (StripeEventsToSns [''TestStack''] ''TestNotifier'' throwing_props
         empty_stack)) ''TestTopic'') = 1"
  using ctor_valid[of throwing_props "''TestEventBus''" "''TestTopic''"
      "[''payment_intent.succeeded'', ''customer.created'']" throwing_template
      "[''TestStack'']" "''TestNotifier''" empty_stack]
  by (simp add: throwing_props_def example_props_def throwing_template_def empty_stack_def)

subsection \<open>The target\<close>

text \<open>
  Claim C5, as the code has it. With the four properties present, the constructor calls
  the template exactly once, inside the constructor itself. When that call returns a
  value, the constructor returns, and the one rule it has allocated has exactly one
  target: the configured topic, with the input made from the returned value by
  \<open>RuleTargetInput.fromObject\<close>.
\<close>

theorem template_called_once_one_target:
  assumes "eventBus p = Some b" "topic p = Some t" "eventTypes p = Some ets" "ets \<noteq> []"
    "messageTemplate p = Some f"
  shows "templateCalls (snd (StripeEventsToSns scope ident p s0)) = Suc (templateCalls s0)
         \<and> (\<forall>v. f EventField = Inr v \<longrightarrow>
               fst (StripeEventsToSns scope ident p s0) = Inr (scope @ [ident])
             \<and> length (rules (snd (StripeEventsToSns scope ident p s0))) = Suc (length (rules s0))
             \<and> take (length (rules s0)) (rules (snd (StripeEventsToSns scope ident p s0))) = rules s0
             \<and> targets (rules (snd (StripeEventsToSns scope ident p s0)) ! length (rules s0))
                 = [SnsTopic t (FromObject v)])"
  using ctor_valid[OF assms, of scope ident s0]
  by (cases "f EventField") simp_all

theorem template_called_once_one_target_witness:
  "templateCalls (snd (StripeEventsToSns [''TestStack''] ''TestNotifier'' example_props
      empty_stack)) = 1
   \<and> targets (rules (snd (StripeEventsToSns [''TestStack''] ''TestNotifier'' example_props
        empty_stack)) ! 0)
       = [SnsTopic ''TestTopic'' (FromObject
            (VObject [(''message'', VField ''$.detail-type''), (''data'', VField ''$.detail'')]))]"
  using template_called_once_one_target[of example_props "''TestEventBus''" "''TestTopic''"
      "[''payment_intent.succeeded'', ''customer.created'']" example_template
      "[''TestStack'']" "''TestNotifier''" empty_stack]
  by (simp add: example_props_def example_template_def EventField_def empty_stack_def)

text \<open>
  Without the condition that the call returns, the property fails: the properties of the
  test suite with a template that throws have all four fields, and the rule that the
  constructor allocates for them has no target.
\<close>

theorem valid_configuration_without_target:
  "eventBus throwing_props = Some ''TestEventBus''
   \<and> topic throwing_props = Some ''TestTopic''
   \<and> eventTypes throwing_props = Some [''payment_intent.succeeded'', ''customer.created'']
   \<and> messageTemplate throwing_props = Some throwing_template
   \<and> length (rules (snd (StripeEventsToSns [''TestStack''] ''TestNotifier'' throwing_props
         empty_stack))) = 1
   \<and> targets (rules (snd (StripeEventsToSns [''TestStack''] ''TestNotifier'' throwing_props
         empty_stack)) ! 0) = []"
  using ctor_valid[of throwing_props "''TestEventBus''" "''TestTopic''"
      "[''payment_intent.succeeded'', ''customer.created'']" throwing_template
      "[''TestStack'']" "''TestNotifier''" empty_stack]
  by (simp add: throwing_props_def example_props_def throwing_template_def empty_stack_def)

subsection \<open>Source, bus and description of the rule\<close>

text \<open>
  Claim C6. With the four properties present, the source of the rule's event pattern is
  the single prefix matcher on \<open>aws.partner/stripe.com\<close> (not an exact matcher), the
  rule is on the configured event bus, and its description is the fixed string of the
  source. For the event types \<open>payment_intent.succeeded\<close>, \<open>customer.created\<close> the
  detail-type list is that list of two, in that order.
\<close>

theorem rule_source_bus_description:
  assumes "eventBus p = Some b" "topic p = Some t" "eventTypes p = Some ets" "ets \<noteq> []"
    "messageTemplate p = Some f"
  shows "source (eventPattern (rules (snd (StripeEventsToSns scope ident p s0)) ! length (rules s0)))
           = [Prefix ''aws.partner/stripe.com'']
         \<and> Exact ''aws.partner/stripe.com'' \<notin>
             set (source (eventPattern (rules (snd (StripeEventsToSns scope ident p s0))
                   ! length (rules s0))))
         \<and> ruleEventBus (rules (snd (StripeEventsToSns scope ident p s0)) ! length (rules s0)) = b
         \<and> description (rules (snd (StripeEventsToSns scope ident p s0)) ! length (rules s0))
             = ''Generic rule to relay Stripe events to SNS''
         \<and> (ets = [''payment_intent.succeeded'', ''customer.created''] \<longrightarrow>
              detailType (eventPattern (rules (snd (StripeEventsToSns scope ident p s0))
                ! length (rules s0))) = [''payment_intent.succeeded'', ''customer.created''])"
  using ctor_valid[OF assms, of scope ident s0]
  by (cases "f EventField") simp_all

theorem rule_source_bus_description_witness:
  "eventPattern (rules (snd (StripeEventsToSns [''TestStack''] ''TestNotifier'' example_props
      empty_stack)) ! 0)
     = \<lparr>source = [Prefix ''aws.partner/stripe.com''],
        detailType = [''payment_intent.succeeded'', ''customer.created'']\<rparr>
   \<and> ruleEventBus (rules (snd (StripeEventsToSns [''TestStack''] ''TestNotifier'' example_props
        empty_stack)) ! 0) = ''TestEventBus''"
  using rule_source_bus_description[of example_props "''TestEventBus''" "''TestTopic''"
      "[''payment_intent.succeeded'', ''customer.created'']" example_template
      "[''TestStack'']" "''TestNotifier''" empty_stack]
  by (simp add: example_props_def empty_stack_def)

subsection \<open>When validation fails\<close>



subsection \<open>Two instances of one configuration\<close>

text \<open>
  Claim C8. Two calls of the constructor with the same properties (all four present), at
  any two places of the tree and from any two stores, fail alike or succeed alike. Each
  allocates exactly one rule, at the path of its own instance, and adds statements to the
  policy of the topic, the first of which carries the condition on the ARN of that
  instance's own rule. Up to the identifiers of the instances (the path of the rule, and
  the rule ARN in the statements) the two rules are equal, targets included, and so are
  the two lists of added statements. When the template returns, the target is the
  configured topic with the input made from the returned value.
\<close>

theorem two_instances_same_descriptions:
  assumes "eventBus p = Some b" "topic p = Some t" "eventTypes p = Some ets" "ets \<noteq> []"
    "messageTemplate p = Some f"
  shows "\<exists>rA rB gA gB.
           rules (snd (StripeEventsToSns scopeA identA p sA)) = rules sA @ [rA]
         \<and> rules (snd (StripeEventsToSns scopeB identB p sB)) = rules sB @ [rB]
         \<and> topicPolicy (snd (StripeEventsToSns scopeA identA p sA)) t = topicPolicy sA t @ gA
         \<and> topicPolicy (snd (StripeEventsToSns scopeB identB p sB)) t = topicPolicy sB t @ gB
         \<and> erase_rule rA = erase_rule rB
         \<and> map erase_statement gA = map erase_statement gB
         \<and> gA \<noteq> []
         \<and> rulePath rA = scopeA @ [identA, ''StripeEventRule'']
         \<and> rulePath rB = scopeB @ [identB, ''StripeEventRule'']
         \<and> conditions (hd gA) = [(''StringEquals'', [(''aws:SourceArn'', ruleArn rA)])]
         \<and> conditions (hd gB) = [(''StringEquals'', [(''aws:SourceArn'', ruleArn rB)])]
         \<and> ruleEventBus rA = b
         \<and> detailType (eventPattern rA) = ets
         \<and> (\<forall>v. f EventField = Inr v \<longrightarrow> targets rA = [SnsTopic t (FromObject v)])
         \<and> (\<forall>x. fst (StripeEventsToSns scopeA identA p sA) = Inl x
               \<longleftrightarrow> fst (StripeEventsToSns scopeB identB p sB) = Inl x)"
proof (cases "f EventField")
  case (Inl e)
  show ?thesis
    using ctor_valid[OF assms, of scopeA identA sA] ctor_valid[OF assms, of scopeB identB sB] Inl
    by (simp add: erase_rule_def erase_statement_def ruleArn_def)
next
  case (Inr v)
  show ?thesis
    using ctor_valid[OF assms, of scopeA identA sA] ctor_valid[OF assms, of scopeB identB sB] Inr
    by (simp add: erase_rule_def erase_statement_def ruleArn_def)
qed

theorem two_instances_same_descriptions_witness:
  "erase_rule (rules (snd (StripeEventsToSns [''TestStack''] ''First'' example_props empty_stack)) ! 0)
     = erase_rule (rules (snd (StripeEventsToSns [''TestStack''] ''Second'' example_props
          (snd (StripeEventsToSns [''TestStack''] ''First'' example_props empty_stack)))) ! 1)
   \<and> length (rules (snd (StripeEventsToSns [''TestStack''] ''Second'' example_props
          (snd (StripeEventsToSns [''TestStack''] ''First'' example_props empty_stack))))) = 2"
proof -
  let ?A = "StripeEventsToSns [''TestStack''] ''First'' example_props empty_stack"
  let ?B = "StripeEventsToSns [''TestStack''] ''Second'' example_props (snd ?A)"
  have v: "eventBus example_props = Some ''TestEventBus''" "topic example_props = Some ''TestTopic''"
      "eventTypes example_props = Some [''payment_intent.succeeded'', ''customer.created'']"
      "[''payment_intent.succeeded'', ''customer.created''] \<noteq> []"
      "messageTemplate example_props = Some example_template"
    by (simp_all add: example_props_def)
  from two_instances_same_descriptions[OF v, of "[''TestStack'']" "''First''" empty_stack
      "[''TestStack'']" "''Second''" "snd ?A"]
  obtain rA rB where r: "rules (snd ?A) = rules empty_stack @ [rA]"
      "rules (snd ?B) = rules (snd ?A) @ [rB]" "erase_rule rA = erase_rule rB"
    by blast
  then show ?thesis
    by (simp add: empty_stack_def)
qed

subsection \<open>The elements of the event types\<close>

text \<open>
  Claim C9. For a non-empty list of event types, whatever its elements, the check of the
  event types reports nothing, and the violations are those of any other non-empty list.
  When the other three properties are present the constructor throws no validation
  \<open>Error\<close> and the rule's detail-type list is the given list.
\<close>

theorem event_types_elements_not_inspected:
  assumes "ets \<noteq> []"
  shows "''eventTypes must be a non-empty array''
            \<notin> set (validation_errors (p\<lparr>eventTypes := Some ets\<rparr>))
         \<and> (\<forall>ets'. ets' \<noteq> [] \<longrightarrow>
               validation_errors (p\<lparr>eventTypes := Some ets'\<rparr>)
                 = validation_errors (p\<lparr>eventTypes := Some ets\<rparr>))
         \<and> (eventBus p \<noteq> None \<and> topic p \<noteq> None \<and> messageTemplate p \<noteq> None \<longrightarrow>
               (\<forall>msg. fst (StripeEventsToSns scope ident (p\<lparr>eventTypes := Some ets\<rparr>) s0)
                        \<noteq> Inl (Error msg))
             \<and> detailType (eventPattern
                 (rules (snd (StripeEventsToSns scope ident (p\<lparr>eventTypes := Some ets\<rparr>) s0))
                    ! length (rules s0))) = ets)"
proof -
  let ?p = "p\<lparr>eventTypes := Some ets\<rparr>"
  have a: "''eventTypes must be a non-empty array'' \<notin> set (validation_errors ?p)"
    using assms violation_mem_iff[of EventTypesField ?p] by simp
  have b: "validation_errors (p\<lparr>eventTypes := Some ets'\<rparr>) = validation_errors ?p"
    if "ets' \<noteq> []" for ets'
    using assms that by (simp add: validation_errors_def)
  have c: "(\<forall>msg. fst (StripeEventsToSns scope ident ?p s0) \<noteq> Inl (Error msg))
      \<and> detailType (eventPattern (rules (snd (StripeEventsToSns scope ident ?p s0))
            ! length (rules s0))) = ets"
    if "eventBus p \<noteq> None \<and> topic p \<noteq> None \<and> messageTemplate p \<noteq> None"
  proof -
    from that obtain bus t f where "eventBus ?p = Some bus" "topic ?p = Some t"
        "messageTemplate ?p = Some f"
      by auto
    moreover have "eventTypes ?p = Some ets" by simp
    ultimately show ?thesis
      using ctor_valid[of ?p bus t ets f scope ident s0] assms
      by (cases "f EventField") simp_all
  qed
  show ?thesis using a b c by blast
qed

theorem event_types_elements_not_inspected_witness:
  "validation_errors (example_props\<lparr>eventTypes := Some ['''', ''not a stripe event'', '''']\<rparr>) = []
   \<and> detailType (eventPattern (rules (snd (StripeEventsToSns [''TestStack''] ''TestNotifier''
        (example_props\<lparr>eventTypes := Some ['''', ''not a stripe event'', '''']\<rparr>) empty_stack)) ! 0))
       = ['''', ''not a stripe event'', '''']"
  using event_types_elements_not_inspected[of "['''', ''not a stripe event'', '''']" example_props
      "[''TestStack'']" "''TestNotifier''" empty_stack]
  by (simp add: example_props_def empty_stack_def validation_errors_def)

subsection \<open>Order of the violations\<close>

text \<open>
  Claim C10. The violations are a subsequence of the four fixed messages in the order
  event bus, topic, event types, template, each present exactly when its field is
  missing. The thrown message starts with \<open>StripeEventsToSns validation failed:\<close> and
  its further lines are the violations in that order.
\<close>

theorem violations_in_fixed_order:
  "subseq (validation_errors p)
     [''eventBus is required'', ''topic is required'',
      ''eventTypes must be a non-empty array'', ''messageTemplate is required'']
   \<and> (''eventBus is required'' \<in> set (validation_errors p) \<longleftrightarrow> eventBus p = None)
   \<and> (''topic is required'' \<in> set (validation_errors p) \<longleftrightarrow> topic p = None)
   \<and> (''eventTypes must be a non-empty array'' \<in> set (validation_errors p)
        \<longleftrightarrow> eventTypes p = None \<or> eventTypes p = Some [])
   \<and> (''messageTemplate is required'' \<in> set (validation_errors p) \<longleftrightarrow> messageTemplate p = None)
   \<and> (validation_errors p \<noteq> [] \<longrightarrow>
        (\<exists>msg. fst (StripeEventsToSns scope ident p s0) = Inl (Error msg)
           \<and> prefix ''StripeEventsToSns validation failed:'' msg
           \<and> tl (split_lines msg) = map (\<lambda>e. ''  - '' @ e) (validation_errors p)))"
proof -
  have "subseq (map violation (spec_missing_fields p))
          (map violation [EventBusField, TopicField, EventTypesField, MessageTemplateField])"
    unfolding spec_missing_fields_def by (intro subseq_map subseq_filter_left)
  then have ord: "subseq (validation_errors p)
     [''eventBus is required'', ''topic is required'',
      ''eventTypes must be a non-empty array'', ''messageTemplate is required'']"
    by (simp add: validation_errors_eq)
  have m1: "''eventBus is required'' \<in> set (validation_errors p) \<longleftrightarrow> eventBus p = None"
    using violation_mem_iff[of EventBusField p] by simp
  have m2: "''topic is required'' \<in> set (validation_errors p) \<longleftrightarrow> topic p = None"
    using violation_mem_iff[of TopicField p] by simp
  have m3: "''eventTypes must be a non-empty array'' \<in> set (validation_errors p)
        \<longleftrightarrow> eventTypes p = None \<or> eventTypes p = Some []"
    using violation_mem_iff[of EventTypesField p] by simp
  have m4: "''messageTemplate is required'' \<in> set (validation_errors p)
        \<longleftrightarrow> messageTemplate p = None"
    using violation_mem_iff[of MessageTemplateField p] by simp
  have thrown: "\<exists>msg. fst (StripeEventsToSns scope ident p s0) = Inl (Error msg)
           \<and> prefix ''StripeEventsToSns validation failed:'' msg
           \<and> tl (split_lines msg) = map (\<lambda>e. ''  - '' @ e) (validation_errors p)"
    if ne: "validation_errors p \<noteq> []"
  proof -
    let ?msg = "validation_message (validation_errors p)"
    have "fst (StripeEventsToSns scope ident p s0) = Inl (Error ?msg)"
      by (simp add: ctor_invalid[OF ne])
    moreover have "prefix ''StripeEventsToSns validation failed:'' ?msg"
      unfolding validation_message_def by (rule prefixI) (rule refl)
    moreover have "tl (split_lines ?msg) = map (\<lambda>e. ''  - '' @ e) (validation_errors p)"
      by (simp only: split_lines_validation_message[OF ne validation_errors_no_newline] list.sel)
    ultimately show ?thesis by blast
  qed
  show ?thesis using ord m1 m2 m3 m4 thrown by blast
qed

theorem violations_in_fixed_order_witness:
  "validation_errors (example_props\<lparr>eventBus := None, messageTemplate := None\<rparr>)
     = [''eventBus is required'', ''messageTemplate is required'']
   \<and> (\<exists>msg. fst (StripeEventsToSns [''TestStack''] ''TestNotifier''
          (example_props\<lparr>eventBus := None, messageTemplate := None\<rparr>) empty_stack) = Inl (Error msg)
        \<and> prefix ''StripeEventsToSns validation failed:'' msg
        \<and> tl (split_lines msg) = [''  - eventBus is required'', ''  - messageTemplate is required''])"
  using violations_in_fixed_order[of "example_props\<lparr>eventBus := None, messageTemplate := None\<rparr>"
      "[''TestStack'']" "''TestNotifier''" empty_stack]
  by (auto simp: example_props_def validation_errors_def)

end
